theory Spec2Isabelle
  imports Main
begin

section \<open>Exit codes\<close>

text \<open>
  The constant block of \<^verbatim>\<open>cli.go\<close> (lines 21-33):
  \<^verbatim>\<open>
  const (
      ExitCodeOK int = 0

      // Errors start at 10
      ExitCodeError = 10 + iota
      ExitCodeInterrupt
      ...
      ExitCodeWatcherError
  )
  \<close>
  In Go, \<^verbatim>\<open>iota\<close> is the index of the constant specification inside its block,
  counted from zero, and a specification without an expression repeats the previous one.
  \<^verbatim>\<open>ExitCodeOK\<close> is specification 0, so \<^verbatim>\<open>ExitCodeError\<close> is specification 1.
  Go's \<^verbatim>\<open>int\<close> is modelled as \<open>int\<close>: no arithmetic is done on an exit status.
\<close>

definition ExitCodeOK :: int where
  "ExitCodeOK = 0"

definition errors_start :: "int \<Rightarrow> int" where
  \<comment> \<open>the expression \<^verbatim>\<open>10 + iota\<close>, as a function of \<^verbatim>\<open>iota\<close>\<close>
  "errors_start iota = 10 + iota"

definition ExitCodeError :: int where
  "ExitCodeError = errors_start 1"

definition ExitCodeInterrupt :: int where
  "ExitCodeInterrupt = errors_start 2"

definition ExitCodeLoggingError :: int where
  "ExitCodeLoggingError = errors_start 3"

definition ExitCodeParseFlagsError :: int where
  "ExitCodeParseFlagsError = errors_start 4"

definition ExitCodeParseConfigError :: int where
  "ExitCodeParseConfigError = errors_start 5"

definition ExitCodeRunnerError :: int where
  "ExitCodeRunnerError = errors_start 6"

definition ExitCodeConsulAPIError :: int where
  "ExitCodeConsulAPIError = errors_start 7"

definition ExitCodeWatcherError :: int where
  "ExitCodeWatcherError = errors_start 8"

definition internal_exit_codes :: "int list" where
  \<comment> \<open>the error codes of the block, in declaration order\<close>
  "internal_exit_codes =
     [ExitCodeError, ExitCodeInterrupt, ExitCodeLoggingError, ExitCodeParseFlagsError,
      ExitCodeParseConfigError, ExitCodeRunnerError, ExitCodeConsulAPIError,
      ExitCodeWatcherError]"

section \<open>Errors, signals, channels\<close>

text \<open>
  A Go \<^verbatim>\<open>error\<close> is an interface value with an \<^verbatim>\<open>Error()\<close> message; a nil error is
  \<open>None\<close> of \<open>error option\<close>. \<^verbatim>\<open>fmt.Errorf\<close> builds an error from its formatted text.
\<close>

datatype error = Errorf string

fun Error :: "error \<Rightarrow> string" where
  "Error (Errorf msg) = msg"

text \<open>The verb \<^verbatim>\<open>%d\<close> of \<^verbatim>\<open>fmt\<close> on an \<^verbatim>\<open>int\<close>: decimal digits, a minus sign first
  for a negative number.\<close>

definition digit_char :: "nat \<Rightarrow> char" where
  "digit_char d = char_of (48 + d)"

fun decimal :: "nat \<Rightarrow> string" where
  "decimal n = (if n < 10 then [digit_char n] else decimal (n div 10) @ [digit_char (n mod 10)])"

declare decimal.simps [simp del]

definition fmt_d :: "int \<Rightarrow> string" where
  "fmt_d i = (if i < 0 then CHR ''-'' # decimal (nat (- i)) else decimal (nat i))"

text \<open>
  \<^verbatim>\<open>syscall.Signal\<close> is an integer type; the three signals that \<^verbatim>\<open>Run\<close> compares
  against carry their POSIX numbers.
\<close>

type_synonym Signal = int

definition SIGINT :: Signal where
  "SIGINT = 2"

definition SIGQUIT :: Signal where
  "SIGQUIT = 3"

definition SIGTERM :: Signal where
  "SIGTERM = 15"

text \<open>A channel of \<^verbatim>\<open>struct{}\<close> that is only ever closed: closing it twice panics.\<close>

datatype chan = Open | Closed

fun close_chan :: "chan \<Rightarrow> chan option" where
  "close_chan Open = Some Closed"
| "close_chan Closed = None"

section \<open>The CLI value and \<^verbatim>\<open>stop\<close>\<close>

record 'w CLI =
  outStream :: 'w
  errStream :: 'w
  stopCh :: chan
  stopped :: bool

definition NewCLI :: "'w \<Rightarrow> 'w \<Rightarrow> 'w CLI" where
  "NewCLI out err = \<lparr>outStream = out, errStream = err, stopCh = Open, stopped = False\<rparr>"

text \<open>
  \<^verbatim>\<open>stop\<close> (lines 152-162) runs under the CLI's mutex, so calls never interleave and
  each one is a function of the CLI value. \<open>None\<close> is the panic of closing a closed
  channel.
\<close>

definition stop :: "'w CLI \<Rightarrow> 'w CLI option" where
  "stop cli =
     (if stopped cli then Some cli
      else (case close_chan (stopCh cli) of
              None \<Rightarrow> None
            | Some ch \<Rightarrow> Some (cli\<lparr>stopCh := ch, stopped := True\<rparr>)))"

fun stop_times :: "nat \<Rightarrow> 'w CLI \<Rightarrow> 'w CLI option" where
  \<comment> \<open>\<open>n\<close> calls of \<^verbatim>\<open>stop\<close> in a row; a panic ends the sequence\<close>
  "stop_times 0 cli = Some cli"
| "stop_times (Suc n) cli = (case stop cli of None \<Rightarrow> None | Some cli' \<Rightarrow> stop_times n cli')"

section \<open>Configuration and external collaborators\<close>

text \<open>
  The fields of \<^verbatim>\<open>Config\<close> that \<^verbatim>\<open>parseFlags\<close> binds to flags with a plain type
  (string, bool, duration in nanoseconds). The prefix type \<open>'p\<close> is the result type of
  \<^verbatim>\<open>dep.ParseStoreKeyPrefix\<close>. The \<^verbatim>\<open>Auth\<close> and \<^verbatim>\<open>Wait\<close> fields, whose types are
  declared outside \<^verbatim>\<open>cli.go\<close> and which \<^verbatim>\<open>Run\<close> never reads, are left to the flag
  library below.
\<close>

record 'p Config =
  Consul :: string
  Token :: string
  SSL_Enabled :: bool
  SSL_Verify :: bool
  MaxStale :: int
  Syslog_Enabled :: bool
  Syslog_Facility :: string
  Retry :: int
  Prefixes :: "'p list"
  Sanitize :: bool
  Upcase :: bool
  Path :: string
  LogLevel :: string

record 'w logging_Config =
  log_Name :: string
  log_Level :: string
  log_Syslog :: bool
  log_SyslogFacility :: string
  log_Writer :: 'w

text \<open>
  What \<^verbatim>\<open>cli.go\<close> uses and does not define: the package constants \<^verbatim>\<open>Name\<close>,
  \<^verbatim>\<open>Version\<close> and \<^verbatim>\<open>Signals\<close>, \<^verbatim>\<open>DefaultConfig\<close>, the flag set of lines 173-194
  parsed against the arguments (the updated configuration, \<^verbatim>\<open>flags.Args()\<close>, and the
  \<^verbatim>\<open>once\<close> and \<^verbatim>\<open>version\<close> variables), \<^verbatim>\<open>logging.Setup\<close>,
  \<^verbatim>\<open>dep.ParseStoreKeyPrefix\<close> and \<^verbatim>\<open>NewRunner\<close> (\<open>None\<close>: a runner was built).
\<close>

record ('p, 'w) externals =
  Name :: string
  Version :: string
  Signals :: "Signal list"
  DefaultConfig :: "'p Config"
  flags_Parse :: "'p Config \<Rightarrow> string list \<Rightarrow> error + ('p Config \<times> string list \<times> bool \<times> bool)"
  logging_Setup :: "'w logging_Config \<Rightarrow> error option"
  ParseStoreKeyPrefix :: "string \<Rightarrow> error + 'p"
  NewRunner :: "'p Config \<Rightarrow> string list \<Rightarrow> bool \<Rightarrow> error option"

section \<open>Effects and outcomes\<close>

text \<open>
  Everything \<^verbatim>\<open>Run\<close> does besides returning, in program order: log lines, writes to a
  stream, and the calls it makes on its collaborators and on the runner.
\<close>

datatype ('p, 'w) effect =
    LogPrintf string
  | Fprintf 'w string
  | LoggingSetup "'w logging_Config"
  | NewRunnerCall "'p Config" "string list" bool
  | RunnerStart
  | SignalNotify "Signal list"
  | RunnerSignal Signal
  | RunnerStop

text \<open>
  \<^verbatim>\<open>Run\<close> returns a status, panics, or stays blocked in its \<^verbatim>\<open>select\<close> because no
  further event arrives.
\<close>

datatype outcome = Returned int | Panicked | Blocked

definition emit :: "'e list \<Rightarrow> 'e list \<times> outcome \<Rightarrow> 'e list \<times> outcome" where
  \<comment> \<open>effects that happen before the rest of the run\<close>
  "emit fx r = (fx @ fst r, snd r)"

text \<open>\<^verbatim>\<open>handleError\<close> (lines 206-209); calling \<^verbatim>\<open>Error()\<close> on a nil error panics.\<close>

fun handleError :: "error option \<Rightarrow> int \<Rightarrow> ('p, 'w) effect list \<times> outcome" where
  "handleError None status = ([], Panicked)"
| "handleError (Some err) status = ([LogPrintf (''[ERR] '' @ Error err)], Returned status)"

section \<open>The event loop\<close>

text \<open>
  One event is one case of the \<^verbatim>\<open>select\<close> of lines 120-147 being taken. The list is
  the sequence of cases taken over the run; when it is exhausted, \<^verbatim>\<open>Run\<close> blocks.
\<close>

datatype event =
    ErrCh "error option"
  | DoneCh
  | ExitCh int
  | SignalCh Signal
  | StopCh

fun Run_loop :: "'w CLI \<Rightarrow> event list \<Rightarrow> ('p, 'w) effect list \<times> outcome" where
  "Run_loop cli [] = ([], Blocked)"
| "Run_loop cli (ErrCh err # es) = handleError err ExitCodeRunnerError"
| "Run_loop cli (DoneCh # es) = ([], Returned ExitCodeOK)"
| "Run_loop cli (ExitCh code # es) =
     emit [LogPrintf ''[INFO] (cli) subprocess exited'', RunnerStop]
       (if code = ExitCodeOK then ([], Returned ExitCodeOK)
        else handleError
               (Some (Errorf (''unexpected exit from subprocess ('' @ fmt_d code @ '')'')))
               code)"
| "Run_loop cli (SignalCh s # es) =
     emit [RunnerSignal s]
       (if s = SIGINT \<or> s = SIGTERM \<or> s = SIGQUIT then
          ([Fprintf (errStream cli) (''Received interrupt, cleaning up...'' @ [CHR 0x0A]),
            RunnerStop],
           Returned ExitCodeInterrupt)
        else Run_loop cli es)"
| "Run_loop cli (StopCh # es) = ([], Returned ExitCodeOK)"

section \<open>\<^verbatim>\<open>parseFlags\<close> and \<^verbatim>\<open>Run\<close>\<close>

text \<open>
  \<^verbatim>\<open>parseFlags\<close> (lines 168-202): the flags are bound to a fresh default
  configuration and to the local \<^verbatim>\<open>once\<close> and \<^verbatim>\<open>version\<close>; on a parser error
  only the error comes back.
\<close>

definition parseFlags ::
  "('p, 'w) externals \<Rightarrow> 'w CLI \<Rightarrow> string list \<Rightarrow>
     error + ('p Config \<times> string list \<times> bool \<times> bool)" where
  "parseFlags ext cli args =
     (let config = DefaultConfig ext in
      case flags_Parse ext config args of
        Inl err \<Rightarrow> Inl err
      | Inr (config', rest, once, version) \<Rightarrow> Inr (config', rest, once, version))"

text \<open>
  Lines 108-148 of \<^verbatim>\<open>Run\<close>: build the runner, start it in its own goroutine,
  subscribe to the signals, and enter the loop.
\<close>

definition Run_runner ::
  "('p, 'w) externals \<Rightarrow> 'w CLI \<Rightarrow> 'p Config \<Rightarrow> string list \<Rightarrow> bool \<Rightarrow> event list \<Rightarrow>
     ('p, 'w) effect list \<times> outcome" where
  "Run_runner ext cli config command once events =
     emit [NewRunnerCall config command once]
       (case NewRunner ext config command once of
          Some err \<Rightarrow> handleError (Some err) ExitCodeRunnerError
        | None \<Rightarrow> emit [RunnerStart, SignalNotify (Signals ext)] (Run_loop cli events))"

text \<open>
  Lines 87-106 of \<^verbatim>\<open>Run\<close>: the command is every positional argument when the
  configuration has a prefix; otherwise the first positional argument is the prefix and
  at least two arguments are required.
\<close>

definition Run_command ::
  "('p, 'w) externals \<Rightarrow> 'w CLI \<Rightarrow> 'p Config \<Rightarrow> string list \<Rightarrow> bool \<Rightarrow> event list \<Rightarrow>
     ('p, 'w) effect list \<times> outcome" where
  "Run_command ext cli config parsedArgs once events =
     (if length (Prefixes config) > 0 then Run_runner ext cli config parsedArgs once events
      else if length parsedArgs < 2 then
        handleError (Some (Errorf ''cli: missing required arguments prefix and command''))
          ExitCodeParseFlagsError
      else
        emit [LogPrintf (''[WARN] specifying the consul key on the command line is '' @
                         ''deprecated, please use -prefix instead'')]
          (let prefixRaw = hd parsedArgs; command = tl parsedArgs in
           case ParseStoreKeyPrefix ext prefixRaw of
             Inl err \<Rightarrow> handleError (Some err) ExitCodeError
           | Inr prefix \<Rightarrow>
               Run_runner ext cli (config\<lparr>Prefixes := Prefixes config @ [prefix]\<rparr>)
                 command once events))"

text \<open>
  \<^verbatim>\<open>Run\<close> (lines 60-149). \<^verbatim>\<open>args[1:]\<close> panics on an empty argument slice.
\<close>

definition Run ::
  "('p, 'w) externals \<Rightarrow> 'w CLI \<Rightarrow> string list \<Rightarrow> event list \<Rightarrow>
     ('p, 'w) effect list \<times> outcome" where
  "Run ext cli args events =
     (case args of
        [] \<Rightarrow> ([], Panicked)
      | arg0 # args1 \<Rightarrow>
          (case parseFlags ext cli args1 of
             Inl err \<Rightarrow> handleError (Some err) ExitCodeParseFlagsError
           | Inr (config, parsedArgs, once, version) \<Rightarrow>
               (let lc = \<lparr>log_Name = Name ext, log_Level = LogLevel config,
                          log_Syslog = Syslog_Enabled config,
                          log_SyslogFacility = Syslog_Facility config,
                          log_Writer = errStream cli\<rparr>
                in emit [LoggingSetup lc]
                     (case logging_Setup ext lc of
                        Some err \<Rightarrow> handleError (Some err) ExitCodeLoggingError
                      | None \<Rightarrow>
                          if version then
                            ([LogPrintf ''[DEBUG] (cli) version flag was given, exiting now'',
                              Fprintf (errStream cli)
                                (Name ext @ '' v'' @ Version ext @ [CHR 0x0A])],
                             Returned ExitCodeOK)
                          else Run_command ext cli config parsedArgs once events))))"

section \<open>Key transform and Merger\<close>

text \<open>
  \<^verbatim>\<open>cli.go\<close> only documents the merge in its usage text (lines 240-242): prefixes
  are merged from left to right, the right-most result taking precedence. The merge
  itself belongs to the runner, so the definitions of this section follow sections 3, 4.2
  and 4.3 of the specification.
\<close>

text \<open>Modelled from the spec: the runner's Prefix, a store path plus read options; its
  identity is the path.\<close>

record Prefix =
  prefix_path :: string
  allow_stale :: bool

text \<open>Modelled from the spec: the runner's KVSnapshot, the key paths and raw values of
  one read of one prefix, in the order of the read, tagged with the change index.\<close>

record KVSnapshot =
  pairs :: "(string \<times> string) list"
  change_index :: nat

type_synonym EnvironmentMap = "string \<rightharpoonup> string"

text \<open>Modelled from the spec: the runner's character class \<^verbatim>\<open>[A-Za-z0-9_]\<close> of
  section 4.2.\<close>

definition valid_char :: "char \<Rightarrow> bool" where
  "valid_char c =
     (let n = (of_char c :: nat)
      in (48 \<le> n \<and> n \<le> 57) \<or> (65 \<le> n \<and> n \<le> 90) \<or> (97 \<le> n \<and> n \<le> 122) \<or> n = 95)"

text \<open>Modelled from the spec: the runner's upper-casing of one character (ASCII letters;
  section 4.2 names no other alphabet).\<close>

definition upcase_char :: "char \<Rightarrow> char" where
  "upcase_char c =
     (let n = (of_char c :: nat) in if 97 \<le> n \<and> n \<le> 122 then char_of (n - 32) else c)"

text \<open>Modelled from the spec: the runner's \<^verbatim>\<open>transform(path, sanitize, upcase)\<close> of
  section 4.2: with \<^verbatim>\<open>sanitize\<close>, every character outside the class becomes an
  underscore; with \<^verbatim>\<open>upcase\<close>, the result is upper-cased after that.\<close>

definition transform :: "string \<Rightarrow> bool \<Rightarrow> bool \<Rightarrow> string" where
  "transform path sanitize upcase =
     (let s = (if sanitize then map (\<lambda>c. if valid_char c then c else CHR ''_'') path
               else path)
      in if upcase then map upcase_char s else s)"

text \<open>Modelled from the spec: the runner's store of the latest snapshot per prefix
  (section 4.3); a snapshot that arrives replaces the prefix's previous one wholesale.\<close>

definition receive :: "(string \<rightharpoonup> KVSnapshot) \<Rightarrow> Prefix \<times> KVSnapshot \<Rightarrow> (string \<rightharpoonup> KVSnapshot)" where
  "receive latest arrival = latest(prefix_path (fst arrival) \<mapsto> snd arrival)"

text \<open>Modelled from the spec: the runner's store after a sequence of snapshot arrivals,
  oldest first.\<close>

fun receive_all :: "(string \<rightharpoonup> KVSnapshot) \<Rightarrow> (Prefix \<times> KVSnapshot) list \<Rightarrow> (string \<rightharpoonup> KVSnapshot)" where
  "receive_all latest [] = latest"
| "receive_all latest (a # as) = receive_all (receive latest a) as"

text \<open>Modelled from the spec: the pairs the runner's Merger reads for a prefix; an absent
  snapshot is treated as empty (section 4.3).\<close>

definition snapshot_pairs :: "(string \<rightharpoonup> KVSnapshot) \<Rightarrow> Prefix \<Rightarrow> (string \<times> string) list" where
  "snapshot_pairs latest p = (case latest (prefix_path p) of None \<Rightarrow> [] | Some s \<Rightarrow> pairs s)"

text \<open>Modelled from the spec: the runner's insertion of each key of one snapshot, after
  the transform, into the result (section 4.3).\<close>

fun insert_pairs :: "bool \<Rightarrow> bool \<Rightarrow> (string \<times> string) list \<Rightarrow> EnvironmentMap \<Rightarrow> EnvironmentMap" where
  "insert_pairs sanitize upcase [] env = env"
| "insert_pairs sanitize upcase ((k, v) # kvs) env =
     insert_pairs sanitize upcase kvs (env(transform k sanitize upcase \<mapsto> v))"

text \<open>Modelled from the spec: the runner's Merger loop of section 4.3, iterating the
  prefixes in configured order.\<close>

fun merge_into ::
  "bool \<Rightarrow> bool \<Rightarrow> (string \<rightharpoonup> KVSnapshot) \<Rightarrow> Prefix list \<Rightarrow> EnvironmentMap \<Rightarrow> EnvironmentMap" where
  "merge_into sanitize upcase latest [] env = env"
| "merge_into sanitize upcase latest (p # ps) env =
     merge_into sanitize upcase latest ps
       (insert_pairs sanitize upcase (snapshot_pairs latest p) env)"

text \<open>Modelled from the spec: the runner's Merger of section 4.3, from the ordered
  prefixes and the latest snapshot of each to one EnvironmentMap.\<close>

definition merge :: "Prefix list \<Rightarrow> (string \<rightharpoonup> KVSnapshot) \<Rightarrow> bool \<Rightarrow> bool \<Rightarrow> EnvironmentMap" where
  "merge prefixes latest sanitize upcase = merge_into sanitize upcase latest prefixes Map.empty"

text \<open>
  The words of the claim about the Merger, stated without the Merger's loop: the latest
  snapshot of a prefix is the last arrival that carries the prefix's path, and the values
  a snapshot gives a name are those of the keys that the transform maps to the name.
\<close>

definition latest_pairs :: "(Prefix \<times> KVSnapshot) list \<Rightarrow> Prefix \<Rightarrow> (string \<times> string) list" where
  "latest_pairs arrivals p =
     (case find (\<lambda>a. prefix_path (fst a) = prefix_path p) (rev arrivals) of
        None \<Rightarrow> []
      | Some a \<Rightarrow> pairs (snd a))"

definition values_for :: "bool \<Rightarrow> bool \<Rightarrow> (string \<times> string) list \<Rightarrow> string \<Rightarrow> string list" where
  "values_for sanitize upcase kvs name =
     map snd (filter (\<lambda>kv. transform (fst kv) sanitize upcase = name) kvs)"

section \<open>A sample installation\<close>

text \<open>
  Stand-ins for the collaborators, for running the model on concrete command lines: a
  flag parser that knows \<^verbatim>\<open>-once\<close>, \<^verbatim>\<open>-version\<close> and \<^verbatim>\<open>-prefix\<close>, a prefix
  parser that rejects the empty string and a leading slash, and a logging setup and a
  runner constructor that succeed.
\<close>

fun sample_flags ::
  "string Config \<Rightarrow> bool \<Rightarrow> bool \<Rightarrow> string list \<Rightarrow>
     error + (string Config \<times> string list \<times> bool \<times> bool)" where
  "sample_flags config once version [] = Inr (config, [], once, version)"
| "sample_flags config once version (a # as) =
     (if a = ''-once'' then sample_flags config True version as
      else if a = ''-version'' then sample_flags config once True as
      else if a = ''-prefix'' then
        (case as of
           [] \<Rightarrow> Inl (Errorf ''flag needs an argument: -prefix'')
         | p # as' \<Rightarrow> sample_flags (config\<lparr>Prefixes := Prefixes config @ [p]\<rparr>) once version as')
      else if a \<noteq> [] \<and> hd a = CHR ''-'' then
        Inl (Errorf (''flag provided but not defined: '' @ a))
      else Inr (config, a # as, once, version))"

definition sample_config :: "string Config" where
  "sample_config =
     \<lparr>Consul = ''127.0.0.1:8500'', Token = [], SSL_Enabled = False, SSL_Verify = True,
      MaxStale = 0, Syslog_Enabled = False, Syslog_Facility = ''LOCAL0'', Retry = 5000000000,
      Prefixes = [], Sanitize = False, Upcase = False, Path = [], LogLevel = ''WARN''\<rparr>"

definition sample_ext :: "(string, string) externals" where
  "sample_ext =
     \<lparr>Name = ''envconsul'', Version = ''0.5.0'', Signals = [1, 2, 3, 15],
      DefaultConfig = sample_config,
      flags_Parse = (\<lambda>config args. sample_flags config False False args),
      logging_Setup = (\<lambda>lc. None),
      ParseStoreKeyPrefix =
        (\<lambda>s. if s = [] \<or> hd s = CHR ''/'' then Inl (Errorf ''invalid prefix'') else Inr s),
      NewRunner = (\<lambda>config command once. None)\<rparr>"

definition sample_cli :: "string CLI" where
  "sample_cli = NewCLI ''stdout'' ''stderr''"

definition sample_logging :: "string logging_Config" where
  "sample_logging =
     \<lparr>log_Name = ''envconsul'', log_Level = ''WARN'', log_Syslog = False,
      log_SyslogFacility = ''LOCAL0'', log_Writer = ''stderr''\<rparr>"

section \<open>Values of the exit codes\<close>

lemmas exit_code_defs =
  ExitCodeOK_def errors_start_def ExitCodeError_def ExitCodeInterrupt_def
  ExitCodeLoggingError_def ExitCodeParseFlagsError_def ExitCodeParseConfigError_def
  ExitCodeRunnerError_def ExitCodeConsulAPIError_def ExitCodeWatcherError_def

lemma exit_code_values:
  "ExitCodeOK = 0" "ExitCodeError = 11" "ExitCodeInterrupt = 12" "ExitCodeLoggingError = 13"
  "ExitCodeParseFlagsError = 14" "ExitCodeParseConfigError = 15" "ExitCodeRunnerError = 16"
  "ExitCodeConsulAPIError = 17" "ExitCodeWatcherError = 18"
  by (simp_all add: exit_code_defs)

section \<open>Reaching the event loop\<close>

text \<open>Signals other than the three interrupts are relayed and the loop goes on.\<close>

lemma Run_loop_signals:
  "\<forall>s\<in>set ss. s \<notin> {SIGINT, SIGTERM, SIGQUIT} \<Longrightarrow>
   Run_loop cli (map SignalCh ss @ evs) = emit (map RunnerSignal ss) (Run_loop cli evs)"
  by (induction ss) (auto simp: emit_def)

text \<open>
  \<^verbatim>\<open>Run\<close> blocks with no event exactly when its start-up reached the loop; from there
  on the run is the loop's.
\<close>

lemma Run_waiting:
  assumes "Run ext cli args [] = (fx0, Blocked)"
  shows "Run ext cli args evs = emit fx0 (Run_loop cli evs)"
  using assms
  by (auto simp: Run_def Run_command_def Run_runner_def emit_def Let_def
      split: list.splits sum.splits option.splits if_splits prod.splits)

lemmas sample_defs =
  Run_def parseFlags_def Run_command_def Run_runner_def emit_def Let_def
  sample_ext_def sample_config_def sample_cli_def sample_logging_def NewCLI_def
  SIGINT_def SIGTERM_def SIGQUIT_def

lemma sample_waiting:
  "Run sample_ext sample_cli [''envconsul'', ''-prefix'', ''app'', ''env''] [] =
     ([LoggingSetup sample_logging,
       NewRunnerCall (sample_config\<lparr>Prefixes := [''app'']\<rparr>) [''env''] False,
       RunnerStart, SignalNotify [1, 2, 3, 15]], Blocked)"
  by (simp add: sample_defs)

section \<open>Child exit\<close>

text \<open>
  C1. Once \<^verbatim>\<open>Run\<close> waits in its loop, a child-exit event, after any number of relayed
  signals, ends the run: the runner is stopped, the child's code is the status (zero is
  \<^verbatim>\<open>ExitCodeOK\<close>, a nonzero code is logged as an error and returned as it is), and the
  events after it are never looked at.
\<close>

theorem Run_child_exit:
  assumes "Run ext cli args [] = (fx0, Blocked)"
    and "\<forall>s\<in>set ss. s \<notin> {SIGINT, SIGTERM, SIGQUIT}"
  shows "Run ext cli args (map SignalCh ss @ ExitCh code # es) =
           (fx0 @ map RunnerSignal ss @
              [LogPrintf ''[INFO] (cli) subprocess exited'', RunnerStop] @
              (if code = 0 then []
               else [LogPrintf (''[ERR] unexpected exit from subprocess ('' @ fmt_d code @ '')'')]),
            Returned code)
         \<and> ExitCodeOK = 0"
  using assms(2)
  by (simp add: Run_waiting [OF assms(1)] Run_loop_signals emit_def ExitCodeOK_def)

theorem Run_child_exit_witness:
  "Run sample_ext sample_cli [''envconsul'', ''-prefix'', ''app'', ''env'']
     (map SignalCh [1] @ ExitCh 3 # [DoneCh]) =
     ([LoggingSetup sample_logging,
       NewRunnerCall (sample_config\<lparr>Prefixes := [''app'']\<rparr>) [''env''] False,
       RunnerStart, SignalNotify [1, 2, 3, 15], RunnerSignal 1,
       LogPrintf ''[INFO] (cli) subprocess exited'', RunnerStop,
       LogPrintf ''[ERR] unexpected exit from subprocess (3)''], Returned 3)"
proof -
  have quiet: "\<forall>s\<in>set [1]. s \<notin> {SIGINT, SIGTERM, SIGQUIT}"
    by (simp add: SIGINT_def SIGTERM_def SIGQUIT_def)
  have three: "fmt_d 3 = ''3''"
    by code_simp
  show ?thesis
    using Run_child_exit [OF sample_waiting quiet, of 3 "[DoneCh]"] three by simp
qed

section \<open>Clean completion\<close>

text \<open>
  C5. Once \<^verbatim>\<open>Run\<close> waits in its loop, the runner's done channel firing, after any
  number of relayed signals, makes \<^verbatim>\<open>Run\<close> return \<^verbatim>\<open>ExitCodeOK\<close>, which is 0, at
  once: nothing is logged or written for it, and the events after it are never looked at.
\<close>

theorem Run_done:
  assumes "Run ext cli args [] = (fx0, Blocked)"
    and "\<forall>s\<in>set ss. s \<notin> {SIGINT, SIGTERM, SIGQUIT}"
  shows "Run ext cli args (map SignalCh ss @ DoneCh # es) =
           (fx0 @ map RunnerSignal ss, Returned ExitCodeOK)
         \<and> ExitCodeOK = 0"
  using assms(2)
  by (simp add: Run_waiting [OF assms(1)] Run_loop_signals emit_def ExitCodeOK_def)

theorem Run_done_witness:
  "Run sample_ext sample_cli [''envconsul'', ''-prefix'', ''app'', ''env'']
     (map SignalCh [1] @ DoneCh # [ExitCh 3]) =
     ([LoggingSetup sample_logging,
       NewRunnerCall (sample_config\<lparr>Prefixes := [''app'']\<rparr>) [''env''] False,
       RunnerStart, SignalNotify [1, 2, 3, 15], RunnerSignal 1], Returned 0)"
proof -
  have quiet: "\<forall>s\<in>set [1]. s \<notin> {SIGINT, SIGTERM, SIGQUIT}"
    by (simp add: SIGINT_def SIGTERM_def SIGQUIT_def)
  show ?thesis
    using Run_done [OF sample_waiting quiet, of "[ExitCh 3]"] by simp
qed

section \<open>Stopping the CLI\<close>

lemma stop_stopped: "stopped cli \<Longrightarrow> stop_times n cli = Some cli"
  by (induction n) (simp_all add: stop_def)

lemma stop_result_stopped: "stop cli = Some cli' \<Longrightarrow> stopped cli'"
  by (auto simp: stop_def split: if_splits option.splits)

text \<open>
  C6. \<^verbatim>\<open>stop\<close> is idempotent. On a new CLI the first call closes the stop channel and
  sets the flag; a call on the result of a call changes nothing; any positive number of
  calls in a row has the effect of one; and on a new CLI no number of calls panics, so
  the channel is never closed twice.
\<close>

theorem stop_idempotent:
  fixes cli cli' :: "'w CLI" and out err :: 'w
  shows "stop (NewCLI out err) = Some ((NewCLI out err)\<lparr>stopCh := Closed, stopped := True\<rparr>)
   \<and> (stop cli = Some cli' \<longrightarrow> stop cli' = Some cli')
   \<and> (0 < n \<longrightarrow> stop_times n cli = stop cli)
   \<and> (0 < n \<longrightarrow> stop_times n (NewCLI out err) =
         Some ((NewCLI out err)\<lparr>stopCh := Closed, stopped := True\<rparr>))"
proof -
  have first: "stop (NewCLI out err) = Some ((NewCLI out err)\<lparr>stopCh := Closed, stopped := True\<rparr>)"
    by (simp add: stop_def NewCLI_def)
  have again: "stop cli = Some cli' \<longrightarrow> stop cli' = Some cli'"
    by (auto simp: stop_def split: if_splits option.splits)
  have many: "stop_times n c = stop c" if "0 < n" for c :: "'w CLI"
  proof (cases n)
    case 0
    with that show ?thesis by simp
  next
    case (Suc m)
    show ?thesis
    proof (cases "stop c")
      case None
      with Suc show ?thesis by simp
    next
      case (Some c')
      with Suc show ?thesis
        by (simp add: stop_stopped [OF stop_result_stopped [OF Some]])
    qed
  qed
  from first again many [of cli] many [of "NewCLI out err"] show ?thesis by simp
qed

theorem stop_idempotent_witness:
  "stop (NewCLI ''stdout'' ''stderr'') =
     Some \<lparr>outStream = ''stdout'', errStream = ''stderr'', stopCh = Closed, stopped = True\<rparr>
   \<and> stop_times 3 \<lparr>outStream = ''stdout'', errStream = ''stderr'', stopCh = Closed, stopped = True\<rparr> =
     Some \<lparr>outStream = ''stdout'', errStream = ''stderr'', stopCh = Closed, stopped = True\<rparr>
   \<and> stop_times 3 (NewCLI ''stdout'' ''stderr'') =
     Some \<lparr>outStream = ''stdout'', errStream = ''stderr'', stopCh = Closed, stopped = True\<rparr>"
  using stop_idempotent [where out = "''stdout''" and err = "''stderr''"
      and cli = "\<lparr>outStream = ''stdout'', errStream = ''stderr'', stopCh = Closed, stopped = True\<rparr>"
      and cli' = "\<lparr>outStream = ''stdout'', errStream = ''stderr'', stopCh = Closed, stopped = True\<rparr>"
      and n = 3]
  by (simp add: NewCLI_def stop_def)

section \<open>Start-up: flags, logging, version\<close>

lemma sample_parse_version:
  "parseFlags sample_ext sample_cli [''-version''] = Inr (sample_config, [], False, True)"
  by (simp add: parseFlags_def sample_ext_def)

text \<open>
  C9. When the flags parse with \<^verbatim>\<open>version\<close> set and logging is set up, \<^verbatim>\<open>Run\<close>
  writes the name and the version to the error stream and returns \<^verbatim>\<open>ExitCodeOK\<close>,
  which is 0, and no runner is built or started. A logging error comes first, with
  \<^verbatim>\<open>ExitCodeLoggingError\<close>, whatever \<^verbatim>\<open>version\<close> is; and a flag error comes before
  both, with \<^verbatim>\<open>ExitCodeParseFlagsError\<close> and before logging is set up.
\<close>

theorem Run_version:
  assumes "parseFlags ext cli argv = Inr (config, parsedArgs, once, version)"
    and "lc = \<lparr>log_Name = Name ext, log_Level = LogLevel config,
               log_Syslog = Syslog_Enabled config,
               log_SyslogFacility = Syslog_Facility config, log_Writer = errStream cli\<rparr>"
  shows "(version \<and> logging_Setup ext lc = None \<longrightarrow>
            Run ext cli (prog # argv) events =
              ([LoggingSetup lc,
                LogPrintf ''[DEBUG] (cli) version flag was given, exiting now'',
                Fprintf (errStream cli) (Name ext @ '' v'' @ Version ext @ [CHR 0x0A])],
               Returned ExitCodeOK)
            \<and> ExitCodeOK = 0)
       \<and> (logging_Setup ext lc = Some err \<longrightarrow>
            Run ext cli (prog # argv) events =
              ([LoggingSetup lc, LogPrintf (''[ERR] '' @ Error err)],
               Returned ExitCodeLoggingError))
       \<and> (parseFlags ext cli argv' = Inl err' \<longrightarrow>
            Run ext cli (prog # argv') events =
              ([LogPrintf (''[ERR] '' @ Error err')], Returned ExitCodeParseFlagsError))"
  using assms by (simp add: Run_def emit_def ExitCodeOK_def)

theorem Run_version_witness:
  "Run sample_ext sample_cli [''envconsul'', ''-version''] [SignalCh 2] =
     ([LoggingSetup sample_logging,
       LogPrintf ''[DEBUG] (cli) version flag was given, exiting now'',
       Fprintf ''stderr'' ''envconsul v0.5.0\<newline>''], Returned 0)
   \<and> Run (sample_ext\<lparr>logging_Setup := \<lambda>lc. Some (Errorf ''no syslog'')\<rparr>) sample_cli
       [''envconsul'', ''-version''] [SignalCh 2] =
     ([LoggingSetup sample_logging, LogPrintf ''[ERR] no syslog''],
      Returned ExitCodeLoggingError)
   \<and> Run sample_ext sample_cli [''envconsul'', ''-version'', ''-bogus''] [SignalCh 2] =
     ([LogPrintf ''[ERR] flag provided but not defined: -bogus''],
      Returned ExitCodeParseFlagsError)"
proof -
  let ?bad = "sample_ext\<lparr>logging_Setup := \<lambda>lc. Some (Errorf ''no syslog'')\<rparr>"
  have lc: "sample_logging =
      \<lparr>log_Name = Name sample_ext, log_Level = LogLevel sample_config,
       log_Syslog = Syslog_Enabled sample_config,
       log_SyslogFacility = Syslog_Facility sample_config,
       log_Writer = errStream sample_cli\<rparr>"
    by (simp add: sample_defs)
  have lc': "sample_logging =
      \<lparr>log_Name = Name ?bad, log_Level = LogLevel sample_config,
       log_Syslog = Syslog_Enabled sample_config,
       log_SyslogFacility = Syslog_Facility sample_config,
       log_Writer = errStream sample_cli\<rparr>"
    by (simp add: sample_defs)
  have p': "parseFlags ?bad sample_cli [''-version''] = Inr (sample_config, [], False, True)"
    by (simp add: parseFlags_def sample_ext_def)
  have bogus: "parseFlags sample_ext sample_cli [''-version'', ''-bogus''] =
      Inl (Errorf ''flag provided but not defined: -bogus'')"
    by (simp add: parseFlags_def sample_ext_def)
  from Run_version [OF sample_parse_version lc, where prog = "''envconsul''"
      and events = "[SignalCh 2]" and argv' = "[''-version'', ''-bogus'']"
      and err' = "Errorf ''flag provided but not defined: -bogus''"]
  have a: "Run sample_ext sample_cli [''envconsul'', ''-version''] [SignalCh 2] =
     ([LoggingSetup sample_logging,
       LogPrintf ''[DEBUG] (cli) version flag was given, exiting now'',
       Fprintf ''stderr'' ''envconsul v0.5.0\<newline>''], Returned 0)"
    and c: "Run sample_ext sample_cli [''envconsul'', ''-version'', ''-bogus''] [SignalCh 2] =
     ([LogPrintf ''[ERR] flag provided but not defined: -bogus''],
      Returned ExitCodeParseFlagsError)"
    using bogus by (simp_all add: sample_ext_def sample_cli_def NewCLI_def ExitCodeOK_def)
  from Run_version [OF p' lc', where err = "Errorf ''no syslog''" and prog = "''envconsul''"
      and events = "[SignalCh 2]"]
  have b: "Run ?bad sample_cli [''envconsul'', ''-version''] [SignalCh 2] =
     ([LoggingSetup sample_logging, LogPrintf ''[ERR] no syslog''],
      Returned ExitCodeLoggingError)"
    by (simp add: sample_ext_def)
  from a b c show ?thesis by simp
qed

section \<open>Signals\<close>

text \<open>
  A signal that arrives while \<^verbatim>\<open>Run\<close> waits is relayed to the runner first. For
  \<^verbatim>\<open>SIGINT\<close>, \<^verbatim>\<open>SIGTERM\<close> and \<^verbatim>\<open>SIGQUIT\<close> the runner is then stopped and
  \<^verbatim>\<open>Run\<close> returns \<^verbatim>\<open>ExitCodeInterrupt\<close>; for any other signal nothing else is done to
  the runner and the loop takes the next event.
\<close>

lemma Run_signal:
  assumes "Run ext cli args [] = (fx0, Blocked)"
  shows "Run ext cli args (SignalCh s # es) =
           (if s = SIGINT \<or> s = SIGTERM \<or> s = SIGQUIT then
              (fx0 @ [RunnerSignal s,
                      Fprintf (errStream cli) (''Received interrupt, cleaning up...'' @ [CHR 0x0A]),
                      RunnerStop],
               Returned ExitCodeInterrupt)
            else emit (fx0 @ [RunnerSignal s]) (Run_loop cli es))"
  by (simp add: Run_waiting [OF assms] emit_def)

text \<open>
  C3. The behaviour of the claim is the lemma above; its number is not the code's. On
  \<^verbatim>\<open>SIGINT\<close> the run below relays the signal, stops the runner and returns
  \<^verbatim>\<open>ExitCodeInterrupt\<close>, and the constant block makes that 12: the comment of the block
  says that errors start at 10, which would make it 11, but \<^verbatim>\<open>iota\<close> is already 1 at
  \<^verbatim>\<open>ExitCodeError\<close>.
\<close>

theorem Run_interrupt_status:
  "Run sample_ext sample_cli [''envconsul'', ''-prefix'', ''app'', ''env'']
     [SignalCh SIGINT, DoneCh] =
     ([LoggingSetup sample_logging,
       NewRunnerCall (sample_config\<lparr>Prefixes := [''app'']\<rparr>) [''env''] False,
       RunnerStart, SignalNotify [1, 2, 3, 15], RunnerSignal 2,
       Fprintf ''stderr'' ''Received interrupt, cleaning up...\<newline>'', RunnerStop],
      Returned 12)
   \<and> ExitCodeInterrupt = 12"
  by (simp add: Run_signal [OF sample_waiting] exit_code_values)
    (simp add: sample_cli_def NewCLI_def SIGINT_def)

section \<open>Runner errors\<close>

lemma Run_error:
  assumes "Run ext cli args [] = (fx0, Blocked)"
  shows "Run ext cli args (ErrCh (Some err) # es) =
           (fx0 @ [LogPrintf (''[ERR] '' @ Error err)], Returned ExitCodeRunnerError)"
  by (simp add: Run_waiting [OF assms] emit_def)

lemma Run_runner_error:
  assumes "NewRunner ext config command once = Some err"
  shows "Run_runner ext cli config command once events =
           ([NewRunnerCall config command once, LogPrintf (''[ERR] '' @ Error err)],
            Returned ExitCodeRunnerError)"
  using assms by (simp add: Run_runner_def emit_def)

text \<open>
  C4. An error on the runner's error channel, and an error of \<^verbatim>\<open>NewRunner\<close> before
  any runner is started, both end the run with \<^verbatim>\<open>ExitCodeRunnerError\<close>, whatever the
  error is (the two lemmas above). In the code that status is 16, not the 15 that errors
  starting at 10 would give.
\<close>

theorem Run_runner_error_status:
  "Run sample_ext sample_cli [''envconsul'', ''-prefix'', ''app'', ''env'']
     [ErrCh (Some (Errorf ''connection refused'')), DoneCh] =
     ([LoggingSetup sample_logging,
       NewRunnerCall (sample_config\<lparr>Prefixes := [''app'']\<rparr>) [''env''] False,
       RunnerStart, SignalNotify [1, 2, 3, 15],
       LogPrintf ''[ERR] connection refused''],
      Returned 16)
   \<and> Run (sample_ext\<lparr>NewRunner := \<lambda>config command once. Some (Errorf ''bad config'')\<rparr>)
       sample_cli [''envconsul'', ''-prefix'', ''app'', ''env''] [DoneCh] =
     ([LoggingSetup sample_logging,
       NewRunnerCall (sample_config\<lparr>Prefixes := [''app'']\<rparr>) [''env''] False,
       LogPrintf ''[ERR] bad config''],
      Returned 16)
   \<and> ExitCodeRunnerError = 16"
  by (simp add: Run_error [OF sample_waiting] exit_code_values)
    (simp add: sample_defs exit_code_values)

section \<open>Statuses of a run without a child exit\<close>

lemma handleError_status: "snd (handleError e st) = Returned k \<Longrightarrow> k = st"
  by (cases e) auto

lemma internal_codes_mem:
  "ExitCodeError \<in> set internal_exit_codes" "ExitCodeInterrupt \<in> set internal_exit_codes"
  "ExitCodeLoggingError \<in> set internal_exit_codes"
  "ExitCodeParseFlagsError \<in> set internal_exit_codes"
  "ExitCodeRunnerError \<in> set internal_exit_codes"
  by (simp_all add: internal_exit_codes_def)

lemma snd_emit: "snd (emit fx r) = snd r"
  by (simp add: emit_def)

lemma Run_loop_status:
  fixes cli :: "'w CLI"
  assumes "\<forall>c. ExitCh c \<notin> set evs"
    and "snd (Run_loop cli evs :: ('p, 'w) effect list \<times> outcome) = Returned k"
  shows "k = ExitCodeOK \<or> k \<in> set internal_exit_codes"
  using assms
proof (induction evs)
  case Nil
  then show ?case by simp
next
  case (Cons e evs)
  show ?case
  proof (cases e)
    case (ErrCh err)
    with Cons.prems(2) have "k = ExitCodeRunnerError"
      by (auto dest: handleError_status)
    then show ?thesis by (simp add: internal_codes_mem)
  next
    case DoneCh
    with Cons.prems(2) show ?thesis by simp
  next
    case (ExitCh c)
    with Cons.prems(1) show ?thesis by auto
  next
    case (SignalCh s)
    show ?thesis
    proof (cases "s = SIGINT \<or> s = SIGTERM \<or> s = SIGQUIT")
      case True
      with SignalCh Cons.prems(2) have "k = ExitCodeInterrupt"
        by (auto simp: snd_emit)
      then show ?thesis by (simp add: internal_codes_mem)
    next
      case False
      with SignalCh Cons.prems(2)
      have "snd (Run_loop cli evs :: ('p, 'w) effect list \<times> outcome) = Returned k"
        by (auto simp: snd_emit)
      moreover from Cons.prems(1) have "\<forall>c. ExitCh c \<notin> set evs" by simp
      ultimately show ?thesis by (rule Cons.IH [rotated])
    qed
  next
    case StopCh
    with Cons.prems(2) show ?thesis by simp
  qed
qed

lemma Run_runner_status:
  assumes "\<forall>c. ExitCh c \<notin> set evs"
    and "snd (Run_runner ext cli config command once evs) = Returned k"
  shows "k = ExitCodeOK \<or> k \<in> set internal_exit_codes"
proof (cases "NewRunner ext config command once")
  case None
  with assms(2) show ?thesis
    by (auto simp: Run_runner_def snd_emit dest: Run_loop_status [OF assms(1)])
next
  case (Some err)
  with assms(2) have "k = ExitCodeRunnerError"
    by (simp add: Run_runner_error)
  then show ?thesis by (simp add: internal_codes_mem)
qed

lemma Run_command_status:
  assumes "\<forall>c. ExitCh c \<notin> set evs"
    and "snd (Run_command ext cli config parsedArgs once evs) = Returned k"
  shows "k = ExitCodeOK \<or> k \<in> set internal_exit_codes"
  using assms(2)
  by (auto simp: Run_command_def Let_def internal_codes_mem snd_emit
      split: if_splits sum.splits
      dest: Run_runner_status [OF assms(1)])

lemma Run_status:
  assumes "\<forall>c. ExitCh c \<notin> set evs"
    and "snd (Run ext cli args evs) = Returned k"
  shows "k = ExitCodeOK \<or> k \<in> set internal_exit_codes"
  using assms(2)
  by (auto simp: Run_def Let_def internal_codes_mem snd_emit
      split: list.splits if_splits sum.splits option.splits
      dest: Run_command_status [OF assms(1)])

section \<open>The child's status against the internal codes\<close>

text \<open>
  C2, as stated, fails: the child's exit code is returned as it is, so a child that exits
  with 16 gives the status that a runner error gives.
\<close>

theorem child_status_collision:
  "snd (Run sample_ext sample_cli [''envconsul'', ''-prefix'', ''app'', ''env'']
          [ExitCh 16]) = Returned 16
   \<and> snd (Run sample_ext sample_cli [''envconsul'', ''-prefix'', ''app'', ''env'']
          [ErrCh (Some (Errorf ''connection refused''))]) = Returned 16
   \<and> ExitCodeRunnerError = 16"
  by (simp add: Run_waiting [OF sample_waiting] snd_emit exit_code_values)

text \<open>
  C2, amended. The internal codes are pairwise distinct and none is \<^verbatim>\<open>ExitCodeOK\<close>.
  \<^verbatim>\<open>Run\<close> returns a child's exit code unchanged, so when that code is nonzero and is
  not one of the internal codes, it differs from every status that any run returns
  without a child exit, the internal faults among them.
\<close>

theorem child_status_distinct:
  assumes "Run ext cli args [] = (fx0, Blocked)"
    and "code \<noteq> ExitCodeOK" and "code \<notin> set internal_exit_codes"
    and "\<forall>c. ExitCh c \<notin> set events'"
    and "snd (Run ext' cli' args' events') = Returned k"
  shows "snd (Run ext cli args (ExitCh code # es)) = Returned code \<and> code \<noteq> k
         \<and> distinct (ExitCodeOK # internal_exit_codes)"
proof -
  have "snd (Run ext cli args (ExitCh code # es)) = Returned code"
    by (simp add: Run_waiting [OF assms(1)] snd_emit)
  moreover from Run_status [OF assms(4,5)] assms(2,3) have "code \<noteq> k"
    by auto
  moreover have "distinct (ExitCodeOK # internal_exit_codes)"
    by (simp add: internal_exit_codes_def exit_code_defs)
  ultimately show ?thesis by simp
qed

theorem child_status_distinct_witness:
  "snd (Run sample_ext sample_cli [''envconsul'', ''-prefix'', ''app'', ''env''] [ExitCh 3])
     = Returned 3
   \<and> snd (Run sample_ext sample_cli [''envconsul'', ''-prefix'', ''app'', ''env'']
          [SignalCh 1, ErrCh (Some (Errorf ''connection refused''))])
     = Returned ExitCodeRunnerError
   \<and> 3 \<noteq> ExitCodeRunnerError"
proof -
  let ?args = "[''envconsul'', ''-prefix'', ''app'', ''env'']"
  let ?evs = "[SignalCh 1, ErrCh (Some (Errorf ''connection refused''))]"
  have fault: "snd (Run sample_ext sample_cli ?args ?evs) = Returned ExitCodeRunnerError"
    by (simp add: Run_waiting [OF sample_waiting] snd_emit SIGINT_def SIGTERM_def SIGQUIT_def)
  have quiet: "\<forall>c. ExitCh c \<notin> set ?evs"
    by simp
  have outside: "(3::int) \<noteq> ExitCodeOK" "3 \<notin> set internal_exit_codes"
    by (simp_all add: internal_exit_codes_def exit_code_defs)
  from child_status_distinct [OF sample_waiting outside quiet fault, of "[]"] fault
  show ?thesis by simp
qed

section \<open>Missing arguments\<close>

text \<open>
  C7, as stated, fails: with no prefix and no positional argument, but \<^verbatim>\<open>-version\<close>
  given, \<^verbatim>\<open>Run\<close> returns \<^verbatim>\<open>ExitCodeOK\<close> and reports no missing argument.
\<close>

theorem missing_arguments_version:
  "parseFlags sample_ext sample_cli [''-version''] = Inr (sample_config, [], False, True)
   \<and> Prefixes sample_config = []
   \<and> length ([] :: string list) < 2
   \<and> Run sample_ext sample_cli [''envconsul'', ''-version''] [] =
       ([LoggingSetup sample_logging,
         LogPrintf ''[DEBUG] (cli) version flag was given, exiting now'',
         Fprintf ''stderr'' ''envconsul v0.5.0\<newline>''], Returned ExitCodeOK)
   \<and> ExitCodeOK \<noteq> ExitCodeParseFlagsError"
  by (simp add: sample_defs exit_code_defs)

text \<open>
  C7, amended. When the flags parse without \<^verbatim>\<open>version\<close>, logging is set up, the
  configuration has no prefix and fewer than two positional arguments remain, \<^verbatim>\<open>Run\<close>
  logs the error "cli: missing required arguments prefix and command" and returns
  \<^verbatim>\<open>ExitCodeParseFlagsError\<close>, and no runner is built. A flag error returns
  \<^verbatim>\<open>ExitCodeParseFlagsError\<close> before logging is set up.
\<close>

theorem Run_missing_arguments:
  assumes "lc = \<lparr>log_Name = Name ext, log_Level = LogLevel config,
               log_Syslog = Syslog_Enabled config,
               log_SyslogFacility = Syslog_Facility config, log_Writer = errStream cli\<rparr>"
  shows "(parseFlags ext cli argv = Inr (config, parsedArgs, once, False)
          \<and> logging_Setup ext lc = None
          \<and> Prefixes config = [] \<and> length parsedArgs < 2 \<longrightarrow>
            Run ext cli (prog # argv) events =
              ([LoggingSetup lc,
                LogPrintf ''[ERR] cli: missing required arguments prefix and command''],
               Returned ExitCodeParseFlagsError))
       \<and> (parseFlags ext cli argv' = Inl err \<longrightarrow>
            Run ext cli (prog # argv') events =
              ([LogPrintf (''[ERR] '' @ Error err)], Returned ExitCodeParseFlagsError))"
  using assms by (simp add: Run_def Run_command_def emit_def)

theorem Run_missing_arguments_witness:
  "Run sample_ext sample_cli [''envconsul'', ''-once'', ''app''] [DoneCh] =
     ([LoggingSetup sample_logging,
       LogPrintf ''[ERR] cli: missing required arguments prefix and command''],
      Returned ExitCodeParseFlagsError)
   \<and> Run sample_ext sample_cli [''envconsul'', ''-prefix''] [DoneCh] =
     ([LogPrintf ''[ERR] flag needs an argument: -prefix''], Returned ExitCodeParseFlagsError)"
proof -
  have lc: "sample_logging =
      \<lparr>log_Name = Name sample_ext, log_Level = LogLevel sample_config,
       log_Syslog = Syslog_Enabled sample_config,
       log_SyslogFacility = Syslog_Facility sample_config,
       log_Writer = errStream sample_cli\<rparr>"
    by (simp add: sample_defs)
  have one: "parseFlags sample_ext sample_cli [''-once'', ''app''] =
      Inr (sample_config, [''app''], True, False)"
    by (simp add: parseFlags_def sample_ext_def)
  have bad: "parseFlags sample_ext sample_cli [''-prefix''] =
      Inl (Errorf ''flag needs an argument: -prefix'')"
    by (simp add: parseFlags_def sample_ext_def)
  have ok: "logging_Setup sample_ext sample_logging = None" "Prefixes sample_config = []"
    by (simp_all add: sample_ext_def sample_config_def)
  from Run_missing_arguments [OF lc, where argv = "[''-once'', ''app'']"
      and parsedArgs = "[''app'']" and once = True and prog = "''envconsul''"
      and events = "[DoneCh]" and argv' = "[''-prefix'']"
      and err = "Errorf ''flag needs an argument: -prefix''"] one bad ok
  show ?thesis by simp
qed

section \<open>The command to supervise\<close>

text \<open>
  C10, as stated, fails: with no prefix and a single positional argument, that argument
  is not parsed as a prefix, although it would fail to parse; \<^verbatim>\<open>Run\<close> returns
  \<^verbatim>\<open>ExitCodeParseFlagsError\<close>, not \<^verbatim>\<open>ExitCodeError\<close>.
\<close>

theorem single_argument_not_parsed:
  "parseFlags sample_ext sample_cli [''/app''] = Inr (sample_config, [''/app''], False, False)
   \<and> Prefixes sample_config = []
   \<and> ParseStoreKeyPrefix sample_ext ''/app'' = Inl (Errorf ''invalid prefix'')
   \<and> Run sample_ext sample_cli [''envconsul'', ''/app''] [] =
       ([LoggingSetup sample_logging,
         LogPrintf ''[ERR] cli: missing required arguments prefix and command''],
        Returned ExitCodeParseFlagsError)
   \<and> ExitCodeParseFlagsError \<noteq> ExitCodeError"
  by (simp add: sample_defs exit_code_defs)

text \<open>
  C10, amended. When the flags parse without \<^verbatim>\<open>version\<close> and logging is set up: if
  the configuration that \<^verbatim>\<open>parseFlags\<close> returns has a prefix, the runner is built for
  all positional arguments as the command; otherwise, when at least two positional
  arguments remain, the first is parsed as a store-key prefix, and either it is appended
  to the prefixes and the runner is built for the other arguments as the command, or
  \<^verbatim>\<open>Run\<close> logs the parse error and returns \<^verbatim>\<open>ExitCodeError\<close> with no runner built.
\<close>

theorem Run_command_from_arguments:
  assumes "parseFlags ext cli argv = Inr (config, parsedArgs, once, False)"
    and "lc = \<lparr>log_Name = Name ext, log_Level = LogLevel config,
               log_Syslog = Syslog_Enabled config,
               log_SyslogFacility = Syslog_Facility config, log_Writer = errStream cli\<rparr>"
    and "logging_Setup ext lc = None"
    and "warn = LogPrintf (''[WARN] specifying the consul key on the command line is '' @
                           ''deprecated, please use -prefix instead'')"
  shows "(Prefixes config \<noteq> [] \<longrightarrow>
            Run ext cli (prog # argv) events =
              emit [LoggingSetup lc] (Run_runner ext cli config parsedArgs once events))
       \<and> (Prefixes config = [] \<and> 2 \<le> length parsedArgs \<longrightarrow>
            Run ext cli (prog # argv) events =
              (case ParseStoreKeyPrefix ext (hd parsedArgs) of
                 Inl err \<Rightarrow>
                   ([LoggingSetup lc, warn, LogPrintf (''[ERR] '' @ Error err)],
                    Returned ExitCodeError)
               | Inr prefix \<Rightarrow>
                   emit [LoggingSetup lc, warn]
                     (Run_runner ext cli (config\<lparr>Prefixes := Prefixes config @ [prefix]\<rparr>)
                        (tl parsedArgs) once events)))"
  using assms
  by (auto simp: Run_def Run_command_def emit_def Let_def split: sum.splits)

theorem Run_command_from_arguments_witness:
  "Run sample_ext sample_cli [''envconsul'', ''-prefix'', ''app'', ''env'', ''-i''] [] =
     ([LoggingSetup sample_logging,
       NewRunnerCall (sample_config\<lparr>Prefixes := [''app'']\<rparr>) [''env'', ''-i''] False,
       RunnerStart, SignalNotify [1, 2, 3, 15]], Blocked)
   \<and> Run sample_ext sample_cli [''envconsul'', ''app'', ''env'', ''-i''] [] =
     ([LoggingSetup sample_logging,
       LogPrintf ''[WARN] specifying the consul key on the command line is deprecated, please use -prefix instead'',
       NewRunnerCall (sample_config\<lparr>Prefixes := [''app'']\<rparr>) [''env'', ''-i''] False,
       RunnerStart, SignalNotify [1, 2, 3, 15]], Blocked)
   \<and> Run sample_ext sample_cli [''envconsul'', ''/app'', ''env'', ''-i''] [] =
     ([LoggingSetup sample_logging,
       LogPrintf ''[WARN] specifying the consul key on the command line is deprecated, please use -prefix instead'',
       LogPrintf ''[ERR] invalid prefix''], Returned ExitCodeError)"
proof -
  let ?warn = "LogPrintf (''[WARN] specifying the consul key on the command line is '' @
                          ''deprecated, please use -prefix instead'') :: (string, string) effect"
  have lc: "sample_logging =
      \<lparr>log_Name = Name sample_ext, log_Level = LogLevel sample_config,
       log_Syslog = Syslog_Enabled sample_config,
       log_SyslogFacility = Syslog_Facility sample_config,
       log_Writer = errStream sample_cli\<rparr>"
    by (simp add: sample_defs)
  have lc': "sample_logging =
      \<lparr>log_Name = Name sample_ext,
       log_Level = LogLevel (sample_config\<lparr>Prefixes := [''app'']\<rparr>),
       log_Syslog = Syslog_Enabled (sample_config\<lparr>Prefixes := [''app'']\<rparr>),
       log_SyslogFacility = Syslog_Facility (sample_config\<lparr>Prefixes := [''app'']\<rparr>),
       log_Writer = errStream sample_cli\<rparr>"
    by (simp add: sample_defs)
  have ok: "logging_Setup sample_ext sample_logging = None"
    by (simp add: sample_ext_def)
  have p1: "parseFlags sample_ext sample_cli [''-prefix'', ''app'', ''env'', ''-i''] =
      Inr (sample_config\<lparr>Prefixes := [''app'']\<rparr>, [''env'', ''-i''], False, False)"
    by (simp add: parseFlags_def sample_ext_def sample_config_def)
  have p2: "parseFlags sample_ext sample_cli [''app'', ''env'', ''-i''] =
      Inr (sample_config, [''app'', ''env'', ''-i''], False, False)"
    by (simp add: parseFlags_def sample_ext_def)
  have p3: "parseFlags sample_ext sample_cli [''/app'', ''env'', ''-i''] =
      Inr (sample_config, [''/app'', ''env'', ''-i''], False, False)"
    by (simp add: parseFlags_def sample_ext_def)
  from Run_command_from_arguments [OF p1 lc' ok refl, where prog = "''envconsul''" and events = "[]"]
  have a: "Run sample_ext sample_cli [''envconsul'', ''-prefix'', ''app'', ''env'', ''-i''] [] =
     ([LoggingSetup sample_logging,
       NewRunnerCall (sample_config\<lparr>Prefixes := [''app'']\<rparr>) [''env'', ''-i''] False,
       RunnerStart, SignalNotify [1, 2, 3, 15]], Blocked)"
    by (simp add: Run_runner_def emit_def sample_ext_def sample_config_def)
  from Run_command_from_arguments [OF p2 lc ok refl, where prog = "''envconsul''" and events = "[]"]
  have b: "Run sample_ext sample_cli [''envconsul'', ''app'', ''env'', ''-i''] [] =
     ([LoggingSetup sample_logging, ?warn,
       NewRunnerCall (sample_config\<lparr>Prefixes := [''app'']\<rparr>) [''env'', ''-i''] False,
       RunnerStart, SignalNotify [1, 2, 3, 15]], Blocked)"
    by (simp add: Run_runner_def emit_def sample_ext_def sample_config_def)
  from Run_command_from_arguments [OF p3 lc ok refl, where prog = "''envconsul''" and events = "[]"]
  have c: "Run sample_ext sample_cli [''envconsul'', ''/app'', ''env'', ''-i''] [] =
     ([LoggingSetup sample_logging, ?warn, LogPrintf ''[ERR] invalid prefix''],
      Returned ExitCodeError)"
    by (simp add: sample_ext_def sample_config_def)
  from a b c show ?thesis by simp
qed

section \<open>The Merger: the right-most prefix wins\<close>

text \<open>
  What a snapshot inserts for a name is the value of its last key that the transform maps
  to the name; what the loop over the prefixes leaves for a name is what the last prefix
  with such a key inserted; and the store of latest snapshots holds, for each prefix, the
  last arrival with the prefix's path.
\<close>

lemma find_snoc:
  "find P (xs @ [x]) = (case find P xs of None \<Rightarrow> (if P x then Some x else None) | Some y \<Rightarrow> Some y)"
  by (induction xs) auto

lemma insert_pairs_lookup:
  "insert_pairs sanitize upcase kvs env name =
     (if values_for sanitize upcase kvs name = [] then env name
      else Some (last (values_for sanitize upcase kvs name)))"
proof (induction kvs arbitrary: env)
  case Nil
  show ?case by (simp add: values_for_def)
next
  case (Cons kv kvs)
  obtain k v where kv: "kv = (k, v)" by (cases kv)
  show ?case
    by (simp add: kv Cons.IH values_for_def)
qed

lemma merge_into_lookup:
  "merge_into sanitize upcase latest ps env name =
     (case find (\<lambda>p. values_for sanitize upcase (snapshot_pairs latest p) name \<noteq> []) (rev ps) of
        None \<Rightarrow> env name
      | Some p \<Rightarrow> Some (last (values_for sanitize upcase (snapshot_pairs latest p) name)))"
proof (induction ps arbitrary: env)
  case Nil
  show ?case by simp
next
  case (Cons p ps)
  show ?case
    by (simp add: Cons.IH find_snoc insert_pairs_lookup split: option.splits)
qed

lemma snapshot_pairs_receive:
  "snapshot_pairs (receive latest a) p =
     (if prefix_path (fst a) = prefix_path p then pairs (snd a) else snapshot_pairs latest p)"
  by (simp add: receive_def snapshot_pairs_def)

lemma snapshot_pairs_receive_all:
  "snapshot_pairs (receive_all latest arrivals) p =
     (case find (\<lambda>a. prefix_path (fst a) = prefix_path p) (rev arrivals) of
        None \<Rightarrow> snapshot_pairs latest p
      | Some a \<Rightarrow> pairs (snd a))"
proof (induction arrivals arbitrary: latest)
  case Nil
  show ?case by simp
next
  case (Cons a arrivals)
  show ?case
    by (simp add: Cons.IH find_snoc snapshot_pairs_receive split: option.splits)
qed

lemma snapshot_pairs_empty: "snapshot_pairs Map.empty p = []"
  by (simp add: snapshot_pairs_def)

lemma snapshot_pairs_latest:
  "snapshot_pairs (receive_all Map.empty arrivals) p = latest_pairs arrivals p"
  by (simp add: snapshot_pairs_receive_all latest_pairs_def snapshot_pairs_empty
      cong: option.case_cong)

text \<open>
  C8. For every sequence of configured prefixes and every sequence of snapshot arrivals,
  the merged environment gives a name the value that the latest snapshot of the
  right-most configured prefix with a key mapping to the name has for it, and gives it no
  value when no prefix has such a key: the order of the prefixes decides, the order of
  arrival does not. The example of the specification, with sanitising and upper-casing
  switched on and the snapshot of the second prefix arriving first, follows.
\<close>

theorem merge_rightmost_prefix:
  "merge prefixes (receive_all Map.empty arrivals) sanitize upcase name =
     (case find (\<lambda>p. values_for sanitize upcase (latest_pairs arrivals p) name \<noteq> [])
             (rev prefixes) of
        None \<Rightarrow> None
      | Some p \<Rightarrow> Some (last (values_for sanitize upcase (latest_pairs arrivals p) name)))"
  by (simp add: merge_def merge_into_lookup snapshot_pairs_latest cong: option.case_cong)

theorem merge_rightmost_prefix_witness:
  "merge [\<lparr>prefix_path = ''A'', allow_stale = False\<rparr>, \<lparr>prefix_path = ''B'', allow_stale = False\<rparr>]
     (receive_all Map.empty
        [(\<lparr>prefix_path = ''B'', allow_stale = False\<rparr>, \<lparr>pairs = [(''x'', ''0'')], change_index = 4\<rparr>),
         (\<lparr>prefix_path = ''B'', allow_stale = False\<rparr>, \<lparr>pairs = [(''x'', ''2'')], change_index = 7\<rparr>),
         (\<lparr>prefix_path = ''A'', allow_stale = False\<rparr>,
          \<lparr>pairs = [(''x'', ''1''), (''y-z'', ''3'')], change_index = 9\<rparr>)])
     True True ''X'' = Some ''2''"
proof -
  let ?A = "\<lparr>prefix_path = ''A'', allow_stale = False\<rparr>"
  let ?B = "\<lparr>prefix_path = ''B'', allow_stale = False\<rparr>"
  let ?arrivals =
    "[(?B, \<lparr>pairs = [(''x'', ''0'')], change_index = 4\<rparr>),
      (?B, \<lparr>pairs = [(''x'', ''2'')], change_index = 7\<rparr>),
      (?A, \<lparr>pairs = [(''x'', ''1''), (''y-z'', ''3'')], change_index = 9\<rparr>)]"
  have x: "transform ''x'' True True = ''X''"
    by code_simp
  have yz: "transform ''y-z'' True True \<noteq> ''X''"
    by code_simp
  have "merge [?A, ?B] (receive_all Map.empty ?arrivals) True True ''X'' =
      (case find (\<lambda>p. values_for True True (latest_pairs ?arrivals p) ''X'' \<noteq> [])
              (rev [?A, ?B]) of
         None \<Rightarrow> None
       | Some p \<Rightarrow> Some (last (values_for True True (latest_pairs ?arrivals p) ''X'')))"
    by (rule merge_rightmost_prefix)
  also have "\<dots> = Some ''2''"
    using x yz by (simp add: latest_pairs_def values_for_def)
  finally show ?thesis .
qed

end
